theory Spec2Isabelle
  imports Complex_Main "HOL-Library.Monad_Syntax"
begin

section \<open>Numbers and exceptions\<close>

text \<open>
  The program is \<^verbatim>\<open>hurting.py\<close>: the class \<^verbatim>\<open>AnimalDiseaseAI\<close> with its epidemic
  simulator, intervention evaluator, fecal risk score and cached advisory client.

  Python numbers (\<^verbatim>\<open>int\<close> and \<^verbatim>\<open>float\<close>) are modelled by exact reals, so a
  statement about the simulator, the intervention evaluator or the monotonicity of the
  risk score is about the formulas of the code in exact arithmetic. An integer-valued
  input is one particular real, so a statement for all reals covers it. Where the
  digits of a result matter, the risk score is evaluated a second time in binary64, with
  every operation rounded as the machine rounds it (section on binary64 below).

  A Python exception that leaves a method uncaught is the left injection of a sum:
  \<open>Inl e\<close> means that the call raised \<open>e\<close>, \<open>Inr v\<close> that it returned \<open>v\<close>.
  The source defines no exception class of its own and validates no argument.
\<close>

datatype error = ZeroDivisionError | ValueError | OtherError

definition truediv :: "real \<Rightarrow> real \<Rightarrow> error + real" where
  \<comment> \<open>Python's \<^verbatim>\<open>a / b\<close> on numbers: raises on a zero divisor.\<close>
  "truediv a b = (if b = 0 then Inl ZeroDivisionError else Inr (a / b))"

definition from_end :: "'a list \<Rightarrow> nat \<Rightarrow> 'a" where
  \<comment> \<open>Python's \<^verbatim>\<open>xs[-k]\<close>, read where \<open>1 \<le> k \<le> length xs\<close>.\<close>
  "from_end xs k = xs ! (length xs - k)"

section \<open>Model parameters\<close>

record params =
  beta :: real
  gamma :: real
  population :: real
  initial_infected :: real

record env_factors =
  temperature :: real
  humidity :: real
  migration_rate :: real

definition default_params :: params where
  "default_params = \<lparr>beta = 0.3, gamma = 0.1, population = 1000, initial_infected = 1\<rparr>"

definition default_env_factors :: env_factors where
  "default_env_factors = \<lparr>temperature = 20, humidity = 60, migration_rate = 0.005\<rparr>"

section \<open>Epidemic simulator: \<^verbatim>\<open>generate_simulation\<close>\<close>

text \<open>
  The three Python lists \<^verbatim>\<open>S\<close>, \<^verbatim>\<open>I\<close>, \<^verbatim>\<open>R\<close> are threaded through the loop as a
  triple. One pass of the loop body appends to \<^verbatim>\<open>S\<close> first; the line that appends to
  \<^verbatim>\<open>I\<close> then reads \<^verbatim>\<open>S[-2]\<close> of the list that is already one element longer.
\<close>

type_synonym series = "real list \<times> real list \<times> real list"

record data_frame =
  Day :: "int list"
  Susceptible :: "real list"
  Infected :: "real list"
  Recovered :: "real list"

definition adjusted_beta :: "params \<Rightarrow> env_factors \<Rightarrow> real" where
  "adjusted_beta p e =
     beta p * (1 + 0.02 * (temperature e - 20) / 10 + 0.015 * (humidity e - 60) / 20)"

definition sim_step :: "params \<Rightarrow> env_factors \<Rightarrow> real \<Rightarrow> series \<Rightarrow> error + series" where
  "sim_step p e ab st =
     (case st of (S, I, R) \<Rightarrow>
        (case truediv (ab * from_end S 1 * from_end I 1) (population p) of
           Inl err \<Rightarrow> Inl err
         | Inr new_infected \<Rightarrow>
             (let new_recovered = gamma p * from_end I 1;
                  S' = S @ [from_end S 1 - new_infected - migration_rate e * from_end S 1];
                  I' = I @ [from_end I 1 + new_infected - new_recovered
                              + migration_rate e * from_end S' 2];
                  R' = R @ [from_end R 1 + new_recovered]
              in Inr (S', I', R'))))"

fun sim_loop :: "params \<Rightarrow> env_factors \<Rightarrow> real \<Rightarrow> nat \<Rightarrow> series \<Rightarrow> error + series" where
  "sim_loop p e ab 0 st = Inr st"
| "sim_loop p e ab (Suc n) st =
     (case sim_step p e ab st of
        Inl err \<Rightarrow> Inl err
      | Inr st' \<Rightarrow> sim_loop p e ab n st')"

definition make_data_frame ::
  "int list \<Rightarrow> real list \<Rightarrow> real list \<Rightarrow> real list \<Rightarrow> error + data_frame" where
  \<comment> \<open>\<^verbatim>\<open>pd.DataFrame\<close> of a dict of columns: columns of different lengths raise ValueError.\<close>
  "make_data_frame d S I R =
     (if length S = length d \<and> length I = length d \<and> length R = length d
      then Inr \<lparr>Day = d, Susceptible = S, Infected = I, Recovered = R\<rparr>
      else Inl ValueError)"

definition generate_simulation :: "params \<Rightarrow> env_factors \<Rightarrow> int \<Rightarrow> error + data_frame" where
  \<comment> \<open>\<^verbatim>\<open>range(1, days)\<close> has \<open>nat (days - 1)\<close> elements, \<^verbatim>\<open>range(days)\<close> has \<open>nat days\<close>.\<close>
  "generate_simulation p e days =
     (case sim_loop p e (adjusted_beta p e) (nat (days - 1))
             ([population p - initial_infected p], [initial_infected p], [0]) of
        Inl err \<Rightarrow> Inl err
      | Inr (S, I, R) \<Rightarrow> make_data_frame (map int [0..<nat days]) S I R)"

section \<open>Intervention evaluator: \<^verbatim>\<open>evaluate_interventions\<close>\<close>

record intervention =
  cost :: int
  effectiveness :: real
  beta_reduction :: real

definition interventions :: "string \<rightharpoonup> intervention" where
  "interventions =
     [''vaccination'' \<mapsto> \<lparr>cost = 5000, effectiveness = 0.7, beta_reduction = 0.3\<rparr>,
      ''isolation'' \<mapsto> \<lparr>cost = 2000, effectiveness = 0.9, beta_reduction = 0.5\<rparr>,
      ''sanitation'' \<mapsto> \<lparr>cost = 1000, effectiveness = 0.6, beta_reduction = 0.2\<rparr>,
      ''restriction'' \<mapsto> \<lparr>cost = 3000, effectiveness = 0.8, beta_reduction = 0.4\<rparr>]"

record evaluation =
  total_cost :: int
  r0_reduction :: real
  new_r0 :: real
  measures :: "string list"

fun sum_measures :: "string list \<Rightarrow> int \<times> real \<Rightarrow> int \<times> real" where
  \<comment> \<open>The \<^verbatim>\<open>for measure in selected_measures\<close> loop; an unknown id is skipped.\<close>
  "sum_measures [] acc = acc"
| "sum_measures (m # rest) (c, b) =
     (case interventions m of
        None \<Rightarrow> sum_measures rest (c, b)
      | Some iv \<Rightarrow> sum_measures rest (c + cost iv, b + beta_reduction iv))"

definition evaluate_interventions :: "params \<Rightarrow> string list \<Rightarrow> error + evaluation" where
  "evaluate_interventions p selected_measures =
     (case sum_measures selected_measures (0, 0) of (cost_sum, total_beta_reduction) \<Rightarrow>
        (case truediv (beta p) (gamma p) of
           Inl err \<Rightarrow> Inl err
         | Inr original_r0 \<Rightarrow>
             (let new_beta = max 0.01 (beta p * (1 - total_beta_reduction)) in
                (case truediv new_beta (gamma p) of
                   Inl err \<Rightarrow> Inl err
                 | Inr r0' \<Rightarrow>
                     (case truediv (original_r0 - r0') original_r0 of
                        Inl err \<Rightarrow> Inl err
                      | Inr q \<Rightarrow>
                          Inr \<lparr>total_cost = cost_sum, r0_reduction = q * 100,
                               new_r0 = r0', measures = selected_measures\<rparr>)))))"

section \<open>Fecal risk score: \<^verbatim>\<open>analyze_feces\<close>\<close>

text \<open>
  The detector, the classifier, the image file and the clock are outside the program
  text: their results are arguments of the model. \<open>preprocess_ok\<close> is what
  \<^verbatim>\<open>_preprocess_image\<close> returned, \<open>result\<close> what \<^verbatim>\<open>local_model.analyze_image\<close>
  returned (\<open>None\<close> for Python's \<^verbatim>\<open>None\<close>), \<open>h_mean\<close>, \<open>s_mean\<close> and \<open>v_mean\<close> the three
  channel means after the division by 255 for the last two, and \<open>now\<close> the formatted
  time stamp. Labels are ASCII strings; \<^verbatim>\<open>str.lower\<close> maps \<^verbatim>\<open>A\<close>..\<^verbatim>\<open>Z\<close> to \<^verbatim>\<open>a\<close>..\<^verbatim>\<open>z\<close>.
\<close>

record detected_object =
  name :: string
  confidence :: real

record classified_feature =
  label :: string
  confidence :: real

record local_result =
  detection :: "detected_object list"
  classification :: "classified_feature list"

record risk_config =
  risk_threshold :: real
  high_risk_objects :: "string list"
  high_risk_features :: "string list"

definition feces_config :: risk_config where
  "feces_config =
     \<lparr>risk_threshold = 0.65,
      high_risk_objects = [''bird'', ''chicken'', ''duck''],
      high_risk_features =
        [''diarrhea'', ''abnormal'', ''parasite'', ''blood'', ''mucus'', ''liquid'']\<rparr>"

datatype risk_verdict = HighRisk | LowRisk

datatype advice = LowHueAdvice real | HighSaturationAdvice real | MediumRiskAdvice
  | NoHighRiskFeature

record analysis =
  timestamp :: string
  risk_level :: risk_verdict
  probability :: real
  detected_objects :: "detected_object list"
  detected_features :: "classified_feature list"
  local_h :: real
  local_s :: real
  local_v :: real
  avian_flu_risk :: real
  h_alert :: bool
  s_alert :: bool
  expert_advice :: "advice list"

definition lower_char :: "char \<Rightarrow> char" where
  "lower_char c =
     (if 65 \<le> (of_char c :: nat) \<and> (of_char c :: nat) \<le> 90
      then char_of ((of_char c :: nat) + 32) else c)"

definition lower :: "string \<Rightarrow> string" where
  "lower s = map lower_char s"

fun starts_with :: "string \<Rightarrow> string \<Rightarrow> bool" where
  "starts_with s [] = True"
| "starts_with [] (k # ks) = False"
| "starts_with (c # cs) (k # ks) = (c = k \<and> starts_with cs ks)"

fun contains :: "string \<Rightarrow> string \<Rightarrow> bool" where
  \<comment> \<open>\<open>contains s k\<close> is Python's \<^verbatim>\<open>k in s\<close> on strings.\<close>
  "contains [] k = (k = [])"
| "contains (c # cs) k = (starts_with (c # cs) k \<or> contains cs k)"

definition risk_objects :: "risk_config \<Rightarrow> detected_object list \<Rightarrow> detected_object list" where
  "risk_objects cfg ds =
     filter (\<lambda>obj. List.member (high_risk_objects cfg) (name obj)
                   \<and> detected_object.confidence obj > 0.5) ds"

definition risk_features ::
  "risk_config \<Rightarrow> classified_feature list \<Rightarrow> classified_feature list" where
  "risk_features cfg cs =
     filter (\<lambda>feat. list_ex (\<lambda>keyword. contains (lower (label feat)) keyword)
                       (high_risk_features cfg)
                   \<and> classified_feature.confidence feat > 50) cs"

definition avian_flu :: "real \<Rightarrow> real \<Rightarrow> real" where
  "avian_flu h_mean s_mean =
     (if h_mean < 40 \<and> s_mean > 0.65
      then 0.3 * min ((40 - h_mean) / 10 + (s_mean - 0.65) / 0.1) 1.0
      else 0)"

definition total_risk ::
  "detected_object list \<Rightarrow> classified_feature list \<Rightarrow> real \<Rightarrow> real \<Rightarrow> real \<Rightarrow> real" where
  "total_risk ros rfs afr h_mean s_mean =
     sum_list (map (\<lambda>obj. detected_object.confidence obj * 0.5) ros)
     + sum_list (map (\<lambda>feat. classified_feature.confidence feat * 0.2) rfs)
     + afr
     + (if h_mean < 50 then 0.3 else 0)
     + (if s_mean > 0.6 then 0.3 else 0)"

definition threshold :: "detected_object list \<Rightarrow> real" where
  "threshold ros =
     (if list_ex (\<lambda>obj. List.member [''chicken'', ''duck''] (name obj)) ros
      then 0.6 else 0.65)"

definition generate_advice :: "real \<Rightarrow> real \<Rightarrow> advice list" where
  \<comment> \<open>\<^verbatim>\<open>_generate_advice\<close>; each paragraph of the text is one constructor.\<close>
  "generate_advice h s =
     (let adv = (if h < 40 then [LowHueAdvice h] else [])
                @ (if s > 0.65 then [HighSaturationAdvice s] else [])
                @ (if h < 50 \<or> s > 0.6 then [MediumRiskAdvice] else [])
      in if adv = [] then [NoHighRiskFeature] else adv)"

definition analyze_feces ::
  "risk_config \<Rightarrow> bool \<Rightarrow> local_result option \<Rightarrow> real \<Rightarrow> real \<Rightarrow> real \<Rightarrow> string
     \<Rightarrow> analysis list \<Rightarrow> analysis option \<times> analysis list" where
  "analyze_feces cfg preprocess_ok result h_mean s_mean v_mean now feces_history =
     (if \<not> preprocess_ok then (None, feces_history)
      else
        (case result of
           None \<Rightarrow> (None, feces_history)
         | Some res \<Rightarrow>
             (let ros = risk_objects cfg (detection res);
                  rfs = risk_features cfg (classification res);
                  afr = avian_flu h_mean s_mean;
                  tr = total_risk ros rfs afr h_mean s_mean;
                  a = \<lparr>timestamp = now,
                       risk_level = (if tr > threshold ros then HighRisk else LowRisk),
                       probability = tr,
                       detected_objects = ros,
                       detected_features = rfs,
                       local_h = h_mean, local_s = s_mean, local_v = v_mean,
                       avian_flu_risk = afr,
                       h_alert = (h_mean < 40), s_alert = (s_mean > 0.65),
                       expert_advice = generate_advice h_mean s_mean\<rparr>
              in (Some a, feces_history @ [a]))))"

section \<open>The risk score in binary64\<close>

text \<open>
  A binary64 number is a real; \<open>fl64 x\<close> is the binary64 number nearest to \<open>x\<close>, ties to
  the even significand, as the machine rounds the exact result of one operation and as
  Python reads a decimal literal. \<open>binade n x\<close> is the exponent \<open>e\<close> with
  \<open>2^e \<le> x < 2^(e+1)\<close>, found by at most \<open>n\<close> doublings or halvings; 1100 steps reach
  beyond both ends of the binary64 range. \<open>fl64\<close> is \<open>None\<close> where the rounded value is
  not a normal binary64 number (overflow to infinity, or a magnitude below \<open>2^-1022\<close>):
  such values are not modelled, and a computation that meets one is \<open>None\<close> as a whole.

  The definitions with the suffix \<open>_b64\<close> are the same lines of \<^verbatim>\<open>analyze_feces\<close>
  as above, with each literal read by \<open>fl64\<close> and each arithmetic operation rounded by
  \<open>fl64\<close>, in the order Python evaluates them: \<^verbatim>\<open>sum\<close> starts at the integer 0 and adds
  the terms from the left, and the five summands of \<open>total_risk\<close> are added from the
  left. The two filters and the comparisons with 40, 50 and 0.5 involve no rounding.
\<close>

fun binade :: "nat \<Rightarrow> real \<Rightarrow> int" where
  "binade 0 x = 0"
| "binade (Suc n) x =
     (if 2 \<le> x then binade n (x / 2) + 1
      else if x < 1 then binade n (x * 2) - 1
      else 0)"

definition scale2 :: "real \<Rightarrow> int \<Rightarrow> real" where
  "scale2 x k = (if 0 \<le> k then x * 2 ^ nat k else x / 2 ^ nat (- k))"

definition round_half_even :: "real \<Rightarrow> int" where
  "round_half_even q =
     (if q - of_int \<lfloor>q\<rfloor> < 1 / 2 then \<lfloor>q\<rfloor>
      else if 1 / 2 < q - of_int \<lfloor>q\<rfloor> then \<lfloor>q\<rfloor> + 1
      else if even \<lfloor>q\<rfloor> then \<lfloor>q\<rfloor> else \<lfloor>q\<rfloor> + 1)"

definition fl64 :: "real \<Rightarrow> real option" where
  "fl64 x =
     (if x = 0 then Some 0
      else
        (let e = binade 1100 \<bar>x\<bar>;
             q = round_half_even (scale2 \<bar>x\<bar> (52 - e))
         in if e < - 1022 \<or> 1023 < e \<or> (e = 1023 \<and> q = 2 ^ 53) then None
            else Some (sgn x * scale2 (of_int q) (e - 52))))"

definition avian_flu_b64 :: "real \<Rightarrow> real \<Rightarrow> real option" where
  "avian_flu_b64 h_mean s_mean =
     do {
       c065 \<leftarrow> fl64 0.65;
       if h_mean < 40 \<and> s_mean > c065
       then do {
         a \<leftarrow> fl64 (40 - h_mean);
         b \<leftarrow> fl64 (a / 10);
         c \<leftarrow> fl64 (s_mean - c065);
         c01 \<leftarrow> fl64 0.1;
         d \<leftarrow> fl64 (c / c01);
         t \<leftarrow> fl64 (b + d);
         c03 \<leftarrow> fl64 0.3;
         fl64 (c03 * min t 1)
       }
       else Some 0
     }"

fun sum_b64 :: "real \<Rightarrow> real list \<Rightarrow> real \<Rightarrow> real option" where
  "sum_b64 w [] acc = Some acc"
| "sum_b64 w (c # cs) acc =
     do {
       x \<leftarrow> fl64 (c * w);
       acc' \<leftarrow> fl64 (acc + x);
       sum_b64 w cs acc'
     }"

definition total_risk_b64 ::
  "detected_object list \<Rightarrow> classified_feature list \<Rightarrow> real \<Rightarrow> real \<Rightarrow> real \<Rightarrow> real option"
  where
  "total_risk_b64 ros rfs afr h_mean s_mean =
     do {
       c02 \<leftarrow> fl64 0.2;
       c03 \<leftarrow> fl64 0.3;
       c06 \<leftarrow> fl64 0.6;
       s1 \<leftarrow> sum_b64 0.5 (map detected_object.confidence ros) 0;
       s2 \<leftarrow> sum_b64 c02 (map classified_feature.confidence rfs) 0;
       t1 \<leftarrow> fl64 (s1 + s2);
       t2 \<leftarrow> fl64 (t1 + afr);
       t3 \<leftarrow> fl64 (t2 + (if h_mean < 50 then c03 else 0));
       fl64 (t3 + (if s_mean > c06 then c03 else 0))
     }"

definition threshold_b64 :: "detected_object list \<Rightarrow> real option" where
  "threshold_b64 ros =
     (if list_ex (\<lambda>obj. List.member [''chicken'', ''duck''] (name obj)) ros
      then fl64 0.6 else fl64 0.65)"

definition generate_advice_b64 :: "real \<Rightarrow> real \<Rightarrow> advice list option" where
  "generate_advice_b64 h s =
     do {
       c065 \<leftarrow> fl64 0.65;
       c06 \<leftarrow> fl64 0.6;
       Some (let adv = (if h < 40 then [LowHueAdvice h] else [])
                @ (if s > c065 then [HighSaturationAdvice s] else [])
                @ (if h < 50 \<or> s > c06 then [MediumRiskAdvice] else [])
             in if adv = [] then [NoHighRiskFeature] else adv)
     }"

definition analyze_feces_b64 ::
  "risk_config \<Rightarrow> bool \<Rightarrow> local_result option \<Rightarrow> real \<Rightarrow> real \<Rightarrow> real \<Rightarrow> string
     \<Rightarrow> analysis list \<Rightarrow> (analysis option \<times> analysis list) option" where
  "analyze_feces_b64 cfg preprocess_ok result h_mean s_mean v_mean now feces_history =
     (if \<not> preprocess_ok then Some (None, feces_history)
      else
        (case result of
           None \<Rightarrow> Some (None, feces_history)
         | Some res \<Rightarrow>
             do {
               afr \<leftarrow> avian_flu_b64 h_mean s_mean;
               tr \<leftarrow> total_risk_b64 (risk_objects cfg (detection res))
                       (risk_features cfg (classification res)) afr h_mean s_mean;
               th \<leftarrow> threshold_b64 (risk_objects cfg (detection res));
               c065 \<leftarrow> fl64 0.65;
               adv \<leftarrow> generate_advice_b64 h_mean s_mean;
               Some (Some \<lparr>timestamp = now,
                       risk_level = (if tr > th then HighRisk else LowRisk),
                       probability = tr,
                       detected_objects = risk_objects cfg (detection res),
                       detected_features = risk_features cfg (classification res),
                       local_h = h_mean, local_s = s_mean, local_v = v_mean,
                       avian_flu_risk = afr,
                       h_alert = (h_mean < 40), s_alert = (s_mean > c065),
                       expert_advice = adv\<rparr>,
                     feces_history @
                     [\<lparr>timestamp = now,
                       risk_level = (if tr > th then HighRisk else LowRisk),
                       probability = tr,
                       detected_objects = risk_objects cfg (detection res),
                       detected_features = risk_features cfg (classification res),
                       local_h = h_mean, local_s = s_mean, local_v = v_mean,
                       avian_flu_risk = afr,
                       h_alert = (h_mean < 40), s_alert = (s_mean > c065),
                       expert_advice = adv\<rparr>])
             }))"

section \<open>Advisory client: \<^verbatim>\<open>ai_analysis_with_retry\<close> and \<^verbatim>\<open>ai_analysis\<close>\<close>

text \<open>
  The remote service is an argument: \<open>remote k rq\<close> is how the \<open>k\<close>-th HTTP request of the
  process ends when it carries the request \<open>rq\<close>. The four endings are the four ways out
  of the \<^verbatim>\<open>try\<close> block: the \<^verbatim>\<open>return\<close> of the content, an exception of class
  \<^verbatim>\<open>RequestException\<close> (transport failure, error status, undecodable body), a
  \<^verbatim>\<open>KeyError\<close> of the subscripts, and any exception that neither handler catches.

  The prompt is built from the query and the current parameters, and the cache key is the
  text \<^verbatim>\<open>f"{query}_{self.params}_{self.env_factors}"\<close>; both are modelled by the triple
  they are formatted from. The state of the client holds the cache, the number of HTTP
  requests sent so far and the arguments of \<^verbatim>\<open>time.sleep\<close> so far.
\<close>

datatype reply = Content string | RequestException | KeyError | Unhandled

type_synonym request = "string \<times> params \<times> env_factors"

record client =
  analysis_cache :: "request \<rightharpoonup> string"
  posts :: nat
  sleeps :: "nat list"

function retry_loop ::
  "(nat \<Rightarrow> request \<Rightarrow> reply) \<Rightarrow> request \<Rightarrow> nat \<Rightarrow> nat \<Rightarrow> client
     \<Rightarrow> (error + string option) \<times> client" where
  "retry_loop remote rq max_retries retries s =
     (if retries < max_retries then
        (case remote (posts s) rq of
           Content c \<Rightarrow> (Inr (Some c), s\<lparr>posts := posts s + 1\<rparr>)
         | RequestException \<Rightarrow>
             retry_loop remote rq max_retries (retries + 1)
               (s\<lparr>posts := posts s + 1, sleeps := sleeps s @ [2 ^ (retries + 1)]\<rparr>)
         | KeyError \<Rightarrow> (Inr None, s\<lparr>posts := posts s + 1\<rparr>)
         | Unhandled \<Rightarrow> (Inl OtherError, s\<lparr>posts := posts s + 1\<rparr>))
      else (Inr None, s))"
  by pat_completeness auto
termination
  by (relation "measure (\<lambda>(remote, rq, max_retries, retries, s). max_retries - retries)") auto

declare retry_loop.simps [simp del]

definition ai_analysis_with_retry ::
  "(nat \<Rightarrow> request \<Rightarrow> reply) \<Rightarrow> string \<Rightarrow> params \<Rightarrow> env_factors \<Rightarrow> nat \<Rightarrow> client
     \<Rightarrow> (error + string option) \<times> client" where
  "ai_analysis_with_retry remote query p e max_retries s =
     retry_loop remote (query, p, e) max_retries 0 s"

definition ai_analysis ::
  "(nat \<Rightarrow> request \<Rightarrow> reply) \<Rightarrow> string \<Rightarrow> params \<Rightarrow> env_factors \<Rightarrow> client
     \<Rightarrow> (error + string option) \<times> client" where
  \<comment> \<open>\<^verbatim>\<open>if result:\<close> holds for a string that is not empty; \<^verbatim>\<open>None\<close> and \<^verbatim>\<open>""\<close> are falsy.\<close>
  "ai_analysis remote query p e s =
     (let cache_key = (query, p, e) in
        (case analysis_cache s cache_key of
           Some cached \<Rightarrow> (Inr (Some cached), s)
         | None \<Rightarrow>
             (case ai_analysis_with_retry remote query p e 3 s of
                (Inl err, s') \<Rightarrow> (Inl err, s')
              | (Inr None, s') \<Rightarrow> (Inr None, s')
              | (Inr (Some result), s') \<Rightarrow>
                  (Inr (Some result),
                   if result \<noteq> []
                   then s'\<lparr>analysis_cache := (analysis_cache s')(cache_key \<mapsto> result)\<rparr>
                   else s'))))"








text \<open>Scripted remote services used in the examples below.\<close>

definition remote_empty :: "nat \<Rightarrow> request \<Rightarrow> reply" where
  "remote_empty k rq = Content []"

definition remote_flaky :: "nat \<Rightarrow> request \<Rightarrow> reply" where
  "remote_flaky k rq = (if k = 0 then RequestException else Content ''ok'')"




definition fresh_client :: client where
  "fresh_client = \<lparr>analysis_cache = Map.empty, posts = 0, sleeps = []\<rparr>"

text \<open>Example parameters inside the ranges of the dashboard's controls.\<close>

definition example_params :: params where
  "example_params = \<lparr>beta = 1, gamma = 1 / 2, population = 100, initial_infected = 50\<rparr>"

definition example_env :: env_factors where
  "example_env = \<lparr>temperature = 20, humidity = 60, migration_rate = 1 / 10\<rparr>"

section \<open>The simulator's loop\<close>

lemma sim_step_eq:
  assumes "population p \<noteq> 0" "S \<noteq> []" "I \<noteq> []" "R \<noteq> []"
  shows "sim_step p e ab (S, I, R) =
     Inr (S @ [last S - ab * last S * last I / population p - migration_rate e * last S],
          I @ [last I + ab * last S * last I / population p - gamma p * last I
                 + migration_rate e * last S],
          R @ [last R + gamma p * last I])"
  using assms
  by (simp add: sim_step_def truediv_def from_end_def Let_def last_conv_nth nth_append)

lemma sim_step_zero:
  "population p = 0 \<Longrightarrow> sim_step p e ab st = Inl ZeroDivisionError"
  by (simp add: sim_step_def truediv_def split: prod.splits)

text \<open>
  The loop keeps what the lists held and every element it appends obeys the recurrence
  of the body, read at the index before it.
\<close>

lemma sim_loop_recurrence:
  assumes "population p \<noteq> 0" "length I = length S" "length R = length S" "S \<noteq> []"
  shows "\<exists>S' I' R'. sim_loop p e ab n (S, I, R) = Inr (S', I', R')
     \<and> length S' = length S + n \<and> length I' = length S + n \<and> length R' = length S + n
     \<and> take (length S) S' = S \<and> take (length S) I' = I \<and> take (length S) R' = R
     \<and> (\<forall>t. length S \<le> t \<and> t < length S + n \<longrightarrow>
          S' ! t = S' ! (t - 1) - ab * S' ! (t - 1) * I' ! (t - 1) / population p
                     - migration_rate e * S' ! (t - 1)
        \<and> I' ! t = I' ! (t - 1) + ab * S' ! (t - 1) * I' ! (t - 1) / population p
                     - gamma p * I' ! (t - 1) + migration_rate e * S' ! (t - 1)
        \<and> R' ! t = R' ! (t - 1) + gamma p * I' ! (t - 1))"
  using assms
proof (induction n arbitrary: S I R)
  case 0
  then show ?case by simp
next
  case (Suc n)
  let ?ni = "ab * last S * last I / population p"
  let ?S1 = "S @ [last S - ?ni - migration_rate e * last S]"
  let ?I1 = "I @ [last I + ?ni - gamma p * last I + migration_rate e * last S]"
  let ?R1 = "R @ [last R + gamma p * last I]"
  from Suc.prems have ne: "I \<noteq> []" "R \<noteq> []" by auto
  have step: "sim_step p e ab (S, I, R) = Inr (?S1, ?I1, ?R1)"
    using sim_step_eq[OF Suc.prems(1) Suc.prems(4) ne] .
  have "\<exists>S' I' R'. sim_loop p e ab n (?S1, ?I1, ?R1) = Inr (S', I', R')
     \<and> length S' = length ?S1 + n \<and> length I' = length ?S1 + n \<and> length R' = length ?S1 + n
     \<and> take (length ?S1) S' = ?S1 \<and> take (length ?S1) I' = ?I1 \<and> take (length ?S1) R' = ?R1
     \<and> (\<forall>t. length ?S1 \<le> t \<and> t < length ?S1 + n \<longrightarrow>
          S' ! t = S' ! (t - 1) - ab * S' ! (t - 1) * I' ! (t - 1) / population p
                     - migration_rate e * S' ! (t - 1)
        \<and> I' ! t = I' ! (t - 1) + ab * S' ! (t - 1) * I' ! (t - 1) / population p
                     - gamma p * I' ! (t - 1) + migration_rate e * S' ! (t - 1)
        \<and> R' ! t = R' ! (t - 1) + gamma p * I' ! (t - 1))"
    by (rule Suc.IH) (use Suc.prems in simp_all)
  then obtain S' I' R' where
    run: "sim_loop p e ab n (?S1, ?I1, ?R1) = Inr (S', I', R')"
    and len: "length S' = length ?S1 + n" "length I' = length ?S1 + n" "length R' = length ?S1 + n"
    and pre: "take (length ?S1) S' = ?S1" "take (length ?S1) I' = ?I1" "take (length ?S1) R' = ?R1"
    and rec: "\<And>t. length ?S1 \<le> t \<Longrightarrow> t < length ?S1 + n \<Longrightarrow>
          S' ! t = S' ! (t - 1) - ab * S' ! (t - 1) * I' ! (t - 1) / population p
                     - migration_rate e * S' ! (t - 1)
        \<and> I' ! t = I' ! (t - 1) + ab * S' ! (t - 1) * I' ! (t - 1) / population p
                     - gamma p * I' ! (t - 1) + migration_rate e * S' ! (t - 1)
        \<and> R' ! t = R' ! (t - 1) + gamma p * I' ! (t - 1)"
    by blast
  have nthS: "\<And>k. k < length ?S1 \<Longrightarrow> S' ! k = ?S1 ! k"
    using pre(1) by (metis nth_take)
  have nthI: "\<And>k. k < length ?S1 \<Longrightarrow> I' ! k = ?I1 ! k"
    using pre(2) by (metis nth_take)
  have nthR: "\<And>k. k < length ?S1 \<Longrightarrow> R' ! k = ?R1 ! k"
    using pre(3) by (metis nth_take)
  have lastS: "last S = S' ! (length S - 1)"
    using nthS[of "length S - 1"] Suc.prems(4) by (simp add: nth_append last_conv_nth)
  have lastI: "last I = I' ! (length S - 1)"
    using nthI[of "length S - 1"] Suc.prems ne by (simp add: nth_append last_conv_nth)
  have lastR: "last R = R' ! (length S - 1)"
    using nthR[of "length S - 1"] Suc.prems ne by (simp add: nth_append last_conv_nth)
  have newS: "S' ! length S = last S - ?ni - migration_rate e * last S"
    using nthS[of "length S"] by simp
  have newI: "I' ! length S = last I + ?ni - gamma p * last I + migration_rate e * last S"
    using nthI[of "length S"] Suc.prems by (simp add: nth_append)
  have newR: "R' ! length S = last R + gamma p * last I"
    using nthR[of "length S"] Suc.prems by (simp add: nth_append)
  have tS: "take (length S) S' = S"
  proof -
    have "take (length S) S' = take (length S) (take (length ?S1) S')" by (simp add: min_def)
    then show ?thesis by (simp only: pre(1)) simp
  qed
  have tI: "take (length S) I' = I"
  proof -
    have "take (length S) I' = take (length S) (take (length ?S1) I')" by (simp add: min_def)
    then show ?thesis using Suc.prems by (simp only: pre(2)) simp
  qed
  have tR: "take (length S) R' = R"
  proof -
    have "take (length S) R' = take (length S) (take (length ?S1) R')" by (simp add: min_def)
    then show ?thesis using Suc.prems by (simp only: pre(3)) simp
  qed
  have loop: "sim_loop p e ab (Suc n) (S, I, R) = Inr (S', I', R')"
    using step run by simp
  have rec': "S' ! t = S' ! (t - 1) - ab * S' ! (t - 1) * I' ! (t - 1) / population p
                     - migration_rate e * S' ! (t - 1)
        \<and> I' ! t = I' ! (t - 1) + ab * S' ! (t - 1) * I' ! (t - 1) / population p
                     - gamma p * I' ! (t - 1) + migration_rate e * S' ! (t - 1)
        \<and> R' ! t = R' ! (t - 1) + gamma p * I' ! (t - 1)"
    if "length S \<le> t" "t < length S + Suc n" for t
  proof (cases "t = length S")
    case True
    then show ?thesis using newS newI newR lastS lastI lastR by simp
  next
    case False
    with that have "length ?S1 \<le> t" "t < length ?S1 + n" by simp_all
    then show ?thesis by (rule rec)
  qed
  from loop len tS tI tR rec' show ?case by auto
qed

lemma generate_simulation_run:
  assumes "population p \<noteq> 0" "1 \<le> days"
  shows "\<exists>r. generate_simulation p e days = Inr r
     \<and> Day r = map int [0..<nat days]
     \<and> length (Susceptible r) = nat days \<and> length (Infected r) = nat days
     \<and> length (Recovered r) = nat days
     \<and> Susceptible r ! 0 = population p - initial_infected p
     \<and> Infected r ! 0 = initial_infected p \<and> Recovered r ! 0 = 0
     \<and> (\<forall>t. 1 \<le> t \<and> t < nat days \<longrightarrow>
          Susceptible r ! t = Susceptible r ! (t - 1)
              - adjusted_beta p e * Susceptible r ! (t - 1) * Infected r ! (t - 1) / population p
              - migration_rate e * Susceptible r ! (t - 1)
        \<and> Infected r ! t = Infected r ! (t - 1)
              + adjusted_beta p e * Susceptible r ! (t - 1) * Infected r ! (t - 1) / population p
              - gamma p * Infected r ! (t - 1) + migration_rate e * Susceptible r ! (t - 1)
        \<and> Recovered r ! t = Recovered r ! (t - 1) + gamma p * Infected r ! (t - 1))"
proof -
  let ?S0 = "[population p - initial_infected p]" and ?I0 = "[initial_infected p]"
  let ?R0 = "[0::real]"
  let ?n = "nat (days - 1)"
  have "\<exists>S' I' R'. sim_loop p e (adjusted_beta p e) ?n (?S0, ?I0, ?R0) = Inr (S', I', R')
     \<and> length S' = length ?S0 + ?n \<and> length I' = length ?S0 + ?n \<and> length R' = length ?S0 + ?n
     \<and> take (length ?S0) S' = ?S0 \<and> take (length ?S0) I' = ?I0 \<and> take (length ?S0) R' = ?R0
     \<and> (\<forall>t. length ?S0 \<le> t \<and> t < length ?S0 + ?n \<longrightarrow>
          S' ! t = S' ! (t - 1) - adjusted_beta p e * S' ! (t - 1) * I' ! (t - 1) / population p
                     - migration_rate e * S' ! (t - 1)
        \<and> I' ! t = I' ! (t - 1) + adjusted_beta p e * S' ! (t - 1) * I' ! (t - 1) / population p
                     - gamma p * I' ! (t - 1) + migration_rate e * S' ! (t - 1)
        \<and> R' ! t = R' ! (t - 1) + gamma p * I' ! (t - 1))"
    by (rule sim_loop_recurrence) (use assms in simp_all)
  then obtain S' I' R' where
    run: "sim_loop p e (adjusted_beta p e) ?n (?S0, ?I0, ?R0) = Inr (S', I', R')"
    and len: "length S' = 1 + ?n" "length I' = 1 + ?n" "length R' = 1 + ?n"
    and pre: "take 1 S' = ?S0" "take 1 I' = ?I0" "take 1 R' = ?R0"
    and rec: "\<forall>t. 1 \<le> t \<and> t < 1 + ?n \<longrightarrow>
          S' ! t = S' ! (t - 1) - adjusted_beta p e * S' ! (t - 1) * I' ! (t - 1) / population p
                     - migration_rate e * S' ! (t - 1)
        \<and> I' ! t = I' ! (t - 1) + adjusted_beta p e * S' ! (t - 1) * I' ! (t - 1) / population p
                     - gamma p * I' ! (t - 1) + migration_rate e * S' ! (t - 1)
        \<and> R' ! t = R' ! (t - 1) + gamma p * I' ! (t - 1)"
    by auto
  have days: "1 + ?n = nat days" using assms(2) by simp
  have z: "S' ! 0 = population p - initial_infected p" "I' ! 0 = initial_infected p" "R' ! 0 = 0"
    using pre by (metis nth_take zero_less_one nth_Cons_0)+
  have "generate_simulation p e days =
      Inr \<lparr>Day = map int [0..<nat days], Susceptible = S', Infected = I', Recovered = R'\<rparr>"
    using run len days by (simp add: generate_simulation_def make_data_frame_def)
  then show ?thesis using len days z rec by simp
qed

lemma generate_simulation_one_day:
  "generate_simulation p e 1 =
     Inr \<lparr>Day = [0], Susceptible = [population p - initial_infected p],
          Infected = [initial_infected p], Recovered = [0]\<rparr>"
  by (simp add: generate_simulation_def make_data_frame_def)

lemma generate_simulation_zero_population:
  assumes "population p = 0" "2 \<le> days"
  shows "generate_simulation p e days = Inl ZeroDivisionError"
proof -
  from assms(2) obtain n where "nat (days - 1) = Suc n"
    by (cases "nat (days - 1)") auto
  then show ?thesis
    using assms(1) by (simp add: generate_simulation_def sim_step_zero)
qed

lemma generate_simulation_no_day:
  assumes "days < 1"
  shows "generate_simulation p e days = Inl ValueError"
  using assms by (simp add: generate_simulation_def make_data_frame_def)

lemma conserved:
  fixes S I R :: "nat \<Rightarrow> real"
  assumes "S 0 + I 0 + R 0 = c"
    and "\<And>t. 1 \<le> t \<Longrightarrow> t < n \<Longrightarrow>
           S t = S (t - 1) - x (t - 1) - m * S (t - 1)
         \<and> I t = I (t - 1) + x (t - 1) - g * I (t - 1) + m * S (t - 1)
         \<and> R t = R (t - 1) + g * I (t - 1)"
    and "t < n"
  shows "S t + I t + R t = c"
  using assms(3)
proof (induction t)
  case 0
  then show ?case using assms(1) by simp
next
  case (Suc t)
  then have "S t + I t + R t = c" by simp
  moreover have "S (Suc t) = S t - x t - m * S t
         \<and> I (Suc t) = I t + x t - g * I t + m * S t
         \<and> R (Suc t) = R t + g * I t"
    using assms(2)[of "Suc t"] Suc.prems by simp
  ultimately show ?case by simp
qed

section \<open>Claims about the simulator\<close>

text \<open>
  Claim C1, as the code has it. For every day \<open>t \<ge> 1\<close> of a run the simulator computes
  \<open>new_infected = adjusted_beta * S[t-1] * I[t-1] / population\<close> and
  \<open>new_recovered = gamma * I[t-1]\<close> and sets
  \<open>I[t] = I[t-1] + new_infected - new_recovered + migration_rate * S[t-1]\<close>: the
  migration term added to \<open>I\<close> is taken from the previous day's susceptible value, the
  same term that is subtracted from \<open>S\<close> in that step. The body reads \<^verbatim>\<open>S[-2]\<close> after
  \<open>S[t]\<close> has been appended, so \<^verbatim>\<open>S[-2]\<close> is \<open>S[t-1]\<close> and not \<open>S[t-2]\<close>.
\<close>

theorem infected_recurrence:
  assumes "population p \<noteq> 0" "1 \<le> t" "t < nat days"
  shows "\<exists>r. generate_simulation p e days = Inr r
     \<and> Susceptible r ! t = Susceptible r ! (t - 1)
          - adjusted_beta p e * Susceptible r ! (t - 1) * Infected r ! (t - 1) / population p
          - migration_rate e * Susceptible r ! (t - 1)
     \<and> Infected r ! t = Infected r ! (t - 1)
          + adjusted_beta p e * Susceptible r ! (t - 1) * Infected r ! (t - 1) / population p
          - gamma p * Infected r ! (t - 1)
          + migration_rate e * Susceptible r ! (t - 1)
     \<and> Recovered r ! t = Recovered r ! (t - 1) + gamma p * Infected r ! (t - 1)"
proof -
  from assms(2,3) have "1 \<le> days" by simp
  from generate_simulation_run[OF assms(1) this, of e] assms(2,3) show ?thesis by blast
qed

theorem infected_recurrence_witness:
  "population example_params \<noteq> 0 \<and> (1::nat) \<le> 2 \<and> (2::nat) < nat 3
   \<and> (\<exists>r. generate_simulation example_params example_env 3 = Inr r
     \<and> Susceptible r ! 2 = Susceptible r ! (2 - 1)
          - adjusted_beta example_params example_env * Susceptible r ! (2 - 1)
              * Infected r ! (2 - 1) / population example_params
          - migration_rate example_env * Susceptible r ! (2 - 1)
     \<and> Infected r ! 2 = Infected r ! (2 - 1)
          + adjusted_beta example_params example_env * Susceptible r ! (2 - 1)
              * Infected r ! (2 - 1) / population example_params
          - gamma example_params * Infected r ! (2 - 1)
          + migration_rate example_env * Susceptible r ! (2 - 1)
     \<and> Recovered r ! 2 = Recovered r ! (2 - 1) + gamma example_params * Infected r ! (2 - 1))"
  using infected_recurrence[of example_params 2 3 example_env]
  by (simp add: example_params_def)

text \<open>
  The recurrence with \<open>S[t-2]\<close> fails on the third day of a run with population 100,
  50 initially infected, \<open>beta = 1\<close>, \<open>gamma = 1/2\<close> and migration rate \<open>1/10\<close>: the
  code yields \<open>I[2] = 81/2\<close>, the lagged formula would give \<open>87/2\<close>.
\<close>

theorem migration_lag_counterexample:
  "generate_simulation example_params example_env 3 =
     Inr \<lparr>Day = [0, 1, 2], Susceptible = [50, 20, 7], Infected = [50, 55, 81 / 2],
          Recovered = [0, 25, 105 / 2]\<rparr>
   \<and> Infected (projr (generate_simulation example_params example_env 3)) ! 2
       \<noteq> Infected (projr (generate_simulation example_params example_env 3)) ! 1
          + adjusted_beta example_params example_env
              * Susceptible (projr (generate_simulation example_params example_env 3)) ! 1
              * Infected (projr (generate_simulation example_params example_env 3)) ! 1
              / population example_params
          - gamma example_params
              * Infected (projr (generate_simulation example_params example_env 3)) ! 1
          + migration_rate example_env
              * Susceptible (projr (generate_simulation example_params example_env 3)) ! 0"
proof -
  have run: "generate_simulation example_params example_env 3 =
     Inr \<lparr>Day = [0, 1, 2], Susceptible = [50, 20, 7], Infected = [50, 55, 81 / 2],
          Recovered = [0, 25, 105 / 2]\<rparr>"
    by (simp add: generate_simulation_def example_params_def example_env_def adjusted_beta_def
        sim_step_def truediv_def from_end_def make_data_frame_def numeral_2_eq_2 upt_rec)
  show ?thesis
    unfolding run by (simp add: adjusted_beta_def example_params_def example_env_def)
qed

text \<open>
  Claim C2, as the code has it. \<^verbatim>\<open>generate_simulation\<close> checks none of its parameters
  and has no InvalidParameter failure. For \<open>days \<ge> 1\<close> and a population other than zero
  (or a single day) it returns a table of \<open>days\<close> rows that starts at
  \<open>S = population - initial_infected\<close>, \<open>I = initial_infected\<close>, \<open>R = 0\<close>, also when the
  population is negative or smaller than \<open>initial_infected\<close>. A population of zero
  with two or more days raises ZeroDivisionError in the first pass of the loop, and
  \<open>days < 1\<close> raises ValueError when the table is built from columns of length one and
  a day column of length zero.
\<close>

theorem generate_simulation_unvalidated:
  "(1 \<le> days \<and> (population p \<noteq> 0 \<or> days = 1) \<longrightarrow>
      (\<exists>r. generate_simulation p e days = Inr r
         \<and> Day r = map int [0..<nat days]
         \<and> length (Susceptible r) = nat days \<and> length (Infected r) = nat days
         \<and> length (Recovered r) = nat days
         \<and> Susceptible r ! 0 = population p - initial_infected p
         \<and> Infected r ! 0 = initial_infected p \<and> Recovered r ! 0 = 0))
   \<and> (2 \<le> days \<and> population p = 0 \<longrightarrow> generate_simulation p e days = Inl ZeroDivisionError)
   \<and> (days < 1 \<longrightarrow> generate_simulation p e days = Inl ValueError)"
proof (intro conjI impI)
  assume a: "1 \<le> days \<and> (population p \<noteq> 0 \<or> days = 1)"
  show "\<exists>r. generate_simulation p e days = Inr r
         \<and> Day r = map int [0..<nat days]
         \<and> length (Susceptible r) = nat days \<and> length (Infected r) = nat days
         \<and> length (Recovered r) = nat days
         \<and> Susceptible r ! 0 = population p - initial_infected p
         \<and> Infected r ! 0 = initial_infected p \<and> Recovered r ! 0 = 0"
  proof (cases "days = 1")
    case True
    then show ?thesis by (simp add: generate_simulation_one_day)
  next
    case False
    with a have "population p \<noteq> 0" "1 \<le> days" by simp_all
    from generate_simulation_run[OF this, of e] show ?thesis by blast
  qed
next
  assume "2 \<le> days \<and> population p = 0"
  then show "generate_simulation p e days = Inl ZeroDivisionError"
    by (simp add: generate_simulation_zero_population)
next
  assume "days < 1"
  then show "generate_simulation p e days = Inl ValueError"
    by (rule generate_simulation_no_day)
qed

theorem generate_simulation_unvalidated_witness:
  "(\<exists>r. generate_simulation
          \<lparr>beta = 0.3, gamma = 0.1, population = 100, initial_infected = 200\<rparr>
          default_env_factors 2 = Inr r
      \<and> Day r = map int [0..<nat 2]
      \<and> length (Susceptible r) = nat 2 \<and> length (Infected r) = nat 2
      \<and> length (Recovered r) = nat 2
      \<and> Susceptible r ! 0 = - 100 \<and> Infected r ! 0 = 200 \<and> Recovered r ! 0 = 0)
   \<and> generate_simulation
        \<lparr>beta = 0.3, gamma = 0.1, population = 0, initial_infected = 1\<rparr>
        default_env_factors 2 = Inl ZeroDivisionError
   \<and> generate_simulation default_params default_env_factors 0 = Inl ValueError"
  using generate_simulation_unvalidated[of 2
          "\<lparr>beta = 0.3, gamma = 0.1, population = 100, initial_infected = 200\<rparr>"
          default_env_factors]
        generate_simulation_unvalidated[of 2
          "\<lparr>beta = 0.3, gamma = 0.1, population = 0, initial_infected = 1\<rparr>"
          default_env_factors]
        generate_simulation_unvalidated[of 0 default_params default_env_factors]
  by simp

text \<open>
  With 200 initially infected in a population of 100 the call returns a table, whose
  susceptible column is negative.
\<close>

theorem invalid_parameter_counterexample:
  "initial_infected \<lparr>beta = 0.3, gamma = 0.1, population = 100, initial_infected = 200\<rparr>
     > population \<lparr>beta = 0.3, gamma = 0.1, population = 100, initial_infected = 200\<rparr>
   \<and> generate_simulation
        \<lparr>beta = 0.3, gamma = 0.1, population = 100, initial_infected = 200\<rparr>
        default_env_factors 2 =
      Inr \<lparr>Day = [0, 1], Susceptible = [- 100, - 79 / 2], Infected = [200, 239 / 2],
           Recovered = [0, 20]\<rparr>"
  by (simp add: generate_simulation_def default_env_factors_def adjusted_beta_def
      sim_step_def truediv_def from_end_def make_data_frame_def numeral_2_eq_2 upt_rec)

text \<open>
  Claim C10. In exact arithmetic the simulator conserves the total: for every population
  other than zero, every environment and every day \<open>t\<close> of the returned series,
  \<open>S[t] + I[t] + R[t] = population\<close>, because the migration term subtracted from \<open>S\<close> is
  the term added to \<open>I\<close> in the same step.
\<close>

theorem mass_conserved:
  assumes "population p \<noteq> 0" "1 \<le> days"
  shows "\<exists>r. generate_simulation p e days = Inr r
           \<and> length (Susceptible r) = nat days \<and> length (Infected r) = nat days
           \<and> length (Recovered r) = nat days
           \<and> (\<forall>t. t < nat days \<longrightarrow>
                 Susceptible r ! t + Infected r ! t + Recovered r ! t = population p)"
proof -
  from generate_simulation_run[OF assms, of e] obtain r where
    r: "generate_simulation p e days = Inr r"
       "length (Susceptible r) = nat days" "length (Infected r) = nat days"
       "length (Recovered r) = nat days"
    and z: "Susceptible r ! 0 = population p - initial_infected p"
       "Infected r ! 0 = initial_infected p" "Recovered r ! 0 = 0"
    and rec: "\<And>t. 1 \<le> t \<Longrightarrow> t < nat days \<Longrightarrow>
          Susceptible r ! t = Susceptible r ! (t - 1)
              - adjusted_beta p e * Susceptible r ! (t - 1) * Infected r ! (t - 1) / population p
              - migration_rate e * Susceptible r ! (t - 1)
        \<and> Infected r ! t = Infected r ! (t - 1)
              + adjusted_beta p e * Susceptible r ! (t - 1) * Infected r ! (t - 1) / population p
              - gamma p * Infected r ! (t - 1) + migration_rate e * Susceptible r ! (t - 1)
        \<and> Recovered r ! t = Recovered r ! (t - 1) + gamma p * Infected r ! (t - 1)"
    by blast
  have "Susceptible r ! t + Infected r ! t + Recovered r ! t = population p"
    if "t < nat days" for t
    by (rule conserved[where S = "\<lambda>t. Susceptible r ! t" and I = "\<lambda>t. Infected r ! t"
          and R = "\<lambda>t. Recovered r ! t" and n = "nat days" and m = "migration_rate e"
          and g = "gamma p"
          and x = "\<lambda>t. adjusted_beta p e * Susceptible r ! t * Infected r ! t / population p"])
      (use z rec that in simp_all)
  with r show ?thesis by blast
qed

theorem mass_conserved_witness:
  "population default_params \<noteq> 0 \<and> (1::int) \<le> 100
   \<and> (\<exists>r. generate_simulation default_params default_env_factors 100 = Inr r
           \<and> length (Susceptible r) = nat 100 \<and> length (Infected r) = nat 100
           \<and> length (Recovered r) = nat 100
           \<and> (\<forall>t. t < nat 100 \<longrightarrow>
                 Susceptible r ! t + Infected r ! t + Recovered r ! t
                   = population default_params))"
  using mass_conserved[of default_params 100 default_env_factors]
  by (simp add: default_params_def)

section \<open>Claims about the intervention evaluator\<close>

lemma interventions_nonneg:
  "interventions m = Some iv \<Longrightarrow> 0 \<le> cost iv \<and> 0 \<le> beta_reduction iv"
  by (auto simp: interventions_def split: if_splits)

lemma sum_measures_acc:
  "sum_measures xs (c, b) =
     (c + fst (sum_measures xs (0, 0)), b + snd (sum_measures xs (0, 0)))"
proof (induction xs arbitrary: c b)
  case Nil
  then show ?case by simp
next
  case (Cons m xs)
  show ?case
  proof (cases "interventions m")
    case None
    then show ?thesis using Cons.IH[of c b] by simp
  next
    case (Some iv)
    then show ?thesis
      using Cons.IH[of "c + cost iv" "b + beta_reduction iv"]
        Cons.IH[of "cost iv" "beta_reduction iv"] by simp
  qed
qed

lemma sum_measures_append:
  "sum_measures (xs @ ys) acc = sum_measures ys (sum_measures xs acc)"
  by (induction xs arbitrary: acc) (auto split: option.splits)

text \<open>One more id in the selection, at any place, lowers neither of the two sums.\<close>

lemma sum_measures_insert:
  "fst (sum_measures (xs @ ys) (0, 0)) \<le> fst (sum_measures (xs @ m # ys) (0, 0))
   \<and> snd (sum_measures (xs @ ys) (0, 0)) \<le> snd (sum_measures (xs @ m # ys) (0, 0))"
proof -
  obtain cx bx where x: "sum_measures xs (0, 0) = (cx, bx)"
    by (cases "sum_measures xs (0, 0)")
  obtain cy "by" where y: "sum_measures ys (0, 0) = (cy, by)"
    by (cases "sum_measures ys (0, 0)")
  have a: "sum_measures (xs @ ys) (0, 0) = (cx + cy, bx + by)"
    using sum_measures_acc[of ys cx bx] by (simp add: sum_measures_append x y)
  show ?thesis
  proof (cases "interventions m")
    case None
    then have "sum_measures (xs @ m # ys) (0, 0) = (cx + cy, bx + by)"
      using sum_measures_acc[of ys cx bx] by (simp add: sum_measures_append x y)
    with a show ?thesis by simp
  next
    case (Some iv)
    then have "sum_measures (xs @ m # ys) (0, 0)
        = (cx + cost iv + cy, bx + beta_reduction iv + by)"
      using sum_measures_acc[of ys "cx + cost iv" "bx + beta_reduction iv"]
      by (simp add: sum_measures_append x y)
    with a interventions_nonneg[OF Some] show ?thesis by simp
  qed
qed

lemma evaluate_interventions_value:
  assumes "gamma p \<noteq> 0" "beta p \<noteq> 0"
  shows "evaluate_interventions p sel =
    Inr \<lparr>total_cost = fst (sum_measures sel (0, 0)),
         r0_reduction =
           (beta p / gamma p
              - max 0.01 (beta p * (1 - snd (sum_measures sel (0, 0)))) / gamma p)
             / (beta p / gamma p) * 100,
         new_r0 = max 0.01 (beta p * (1 - snd (sum_measures sel (0, 0)))) / gamma p,
         measures = sel\<rparr>"
  using assms
  by (simp add: evaluate_interventions_def truediv_def Let_def split: prod.splits)

lemma reduction_mono:
  fixes b b' g bt :: real
  assumes "g \<noteq> 0" "bt \<noteq> 0" "b \<le> b'"
  shows "(bt / g - max 0.01 (bt * (1 - b)) / g) / (bt / g) * 100
       \<le> (bt / g - max 0.01 (bt * (1 - b')) / g) / (bt / g) * 100"
proof -
  have scale: "(1 - x) * 100 \<le> (1 - x') * 100" if "x' \<le> x" for x x' :: real
    using that by simp
  have eq: "(bt / g - x / g) / (bt / g) = 1 - x / bt" for x
    using assms(1,2) by (simp add: field_simps)
  have "max 0.01 (bt * (1 - b')) / bt \<le> max 0.01 (bt * (1 - b)) / bt"
  proof (cases "0 < bt")
    case True
    then have "bt * (1 - b') \<le> bt * (1 - b)" using assms(3) by simp
    then have "max 0.01 (bt * (1 - b')) \<le> max 0.01 (bt * (1 - b))" by simp
    then show ?thesis using True by (simp add: divide_right_mono)
  next
    case False
    then have neg: "bt < 0" using assms(2) by simp
    then have "bt * (1 - b) \<le> bt * (1 - b')" using assms(3) by (simp add: mult_left_mono_neg)
    then have "max 0.01 (bt * (1 - b)) \<le> max 0.01 (bt * (1 - b'))" by simp
    then show ?thesis using neg by (simp add: divide_right_mono_neg)
  qed
  then have "(1 - max 0.01 (bt * (1 - b)) / bt) * 100
           \<le> (1 - max 0.01 (bt * (1 - b')) / bt) * 100"
    by (rule scale)
  then show ?thesis by (simp only: eq)
qed

text \<open>
  Claim C3, as the code has it. \<^verbatim>\<open>evaluate_interventions\<close> has no guard for
  \<open>gamma = 0\<close>: for every selection of intervention ids, when the current \<open>gamma\<close> is 0
  the first division \<^verbatim>\<open>beta / gamma\<close> is carried out and raises ZeroDivisionError,
  which leaves the method uncaught. The division by zero is not masked, and no
  InvalidParameter value is returned.
\<close>

theorem evaluate_interventions_zero_gamma:
  "gamma p = 0 \<Longrightarrow> evaluate_interventions p sel = Inl ZeroDivisionError"
  by (simp add: evaluate_interventions_def truediv_def split: prod.splits)

theorem evaluate_interventions_zero_gamma_witness:
  "gamma \<lparr>beta = 0.3, gamma = 0, population = 1000, initial_infected = 1\<rparr> = 0
   \<and> evaluate_interventions
        \<lparr>beta = 0.3, gamma = 0, population = 1000, initial_infected = 1\<rparr>
        [''vaccination'', ''isolation''] = Inl ZeroDivisionError"
  using evaluate_interventions_zero_gamma
          [of "\<lparr>beta = 0.3, gamma = 0, population = 1000, initial_infected = 1\<rparr>"
              "[''vaccination'', ''isolation'']"]
  by simp

text \<open>
  With \<open>gamma = 0\<close> and the empty selection the quotient \<^verbatim>\<open>beta / gamma\<close> is what fails,
  with Python's own exception.
\<close>

theorem gamma_guard_counterexample:
  "truediv (beta \<lparr>beta = 0.3, gamma = 0, population = 1000, initial_infected = 1\<rparr>)
           (gamma \<lparr>beta = 0.3, gamma = 0, population = 1000, initial_infected = 1\<rparr>)
     = Inl ZeroDivisionError
   \<and> evaluate_interventions
        \<lparr>beta = 0.3, gamma = 0, population = 1000, initial_infected = 1\<rparr> []
     = Inl ZeroDivisionError"
  by (simp add: evaluate_interventions_def truediv_def)

text \<open>
  Claim C5, as the code has it. For every \<open>beta \<ge> 0.01\<close> and every \<open>gamma > 0\<close>,
  \<^verbatim>\<open>evaluate_interventions\<close> applied to the empty selection returns \<open>total_cost = 0\<close>
  and \<open>r0_reduction\<close> exactly 0 percent. The bound on \<open>beta\<close> is the floor of
  \<^verbatim>\<open>new_beta = max(0.01, ...)\<close>: a smaller \<open>beta\<close> is raised to 0.01 and the reported
  reduction is then not zero.
\<close>

theorem evaluate_interventions_empty:
  assumes "0.01 \<le> beta p" "0 < gamma p"
  shows "evaluate_interventions p [] =
     Inr \<lparr>total_cost = 0, r0_reduction = 0, new_r0 = beta p / gamma p, measures = []\<rparr>"
  using assms by (simp add: evaluate_interventions_def truediv_def Let_def max_def)

theorem evaluate_interventions_empty_witness:
  "0.01 \<le> beta default_params \<and> 0 < gamma default_params
   \<and> evaluate_interventions default_params [] =
       Inr \<lparr>total_cost = 0, r0_reduction = 0, new_r0 = 3, measures = []\<rparr>"
  using evaluate_interventions_empty[of default_params]
  by (simp add: default_params_def)

text \<open>
  With \<open>beta = 0.005\<close> and \<open>gamma = 0.1\<close> the empty selection reports a reduction of
  \<open>-100\<close> percent: \<open>new_beta\<close> is 0.01, twice the current \<open>beta\<close>.
\<close>

theorem empty_selection_counterexample:
  "0 < gamma \<lparr>beta = 0.005, gamma = 0.1, population = 1000, initial_infected = 1\<rparr>
   \<and> evaluate_interventions
        \<lparr>beta = 0.005, gamma = 0.1, population = 1000, initial_infected = 1\<rparr> []
     = Inr \<lparr>total_cost = 0, r0_reduction = - 100, new_r0 = 0.1, measures = []\<rparr>"
  by (simp add: evaluate_interventions_def truediv_def Let_def)

text \<open>
  Claim C6. \<^verbatim>\<open>evaluate_interventions\<close> is monotonic: with \<open>gamma > 0\<close> and \<open>beta\<close> held
  fixed (and not zero, so that the evaluation returns), adding any intervention id to a
  selection, at any place of the list, decreases neither \<open>total_cost\<close> nor the
  \<open>r0_reduction\<close> percentage. For \<open>beta = 0\<close> every evaluation raises ZeroDivisionError
  and there is nothing to compare.
\<close>

theorem evaluate_interventions_monotonic:
  assumes "0 < gamma p" "beta p \<noteq> 0"
  shows "\<exists>r r'. evaluate_interventions p (xs @ ys) = Inr r
           \<and> evaluate_interventions p (xs @ m # ys) = Inr r'
           \<and> total_cost r \<le> total_cost r' \<and> r0_reduction r \<le> r0_reduction r'"
proof -
  have g: "gamma p \<noteq> 0" using assms(1) by simp
  note ins = sum_measures_insert[of xs ys m]
  show ?thesis
    using ins reduction_mono[OF g assms(2), of "snd (sum_measures (xs @ ys) (0, 0))"
        "snd (sum_measures (xs @ m # ys) (0, 0))"]
    by (simp add: evaluate_interventions_value[OF g assms(2)])
qed

theorem evaluate_interventions_monotonic_witness:
  "0 < gamma default_params \<and> beta default_params \<noteq> 0
   \<and> (\<exists>r r'. evaluate_interventions default_params ([''vaccination''] @ []) = Inr r
           \<and> evaluate_interventions default_params ([''vaccination''] @ ''isolation'' # [])
               = Inr r'
           \<and> total_cost r \<le> total_cost r' \<and> r0_reduction r \<le> r0_reduction r')"
  using evaluate_interventions_monotonic
          [of default_params "[''vaccination'']" "[]" "''isolation''"]
  by (simp add: default_params_def)

section \<open>Claims about the risk score\<close>

text \<open>
  The exponent search finds the binade of every magnitude from \<open>2^-n\<close> up to
  \<open>2^(n+1)\<close> and runs out of steps only beyond, where 1100 steps leave an exponent
  outside the binary64 range. So a value that \<open>fl64\<close> returns is the rounding of its
  argument in the right binade, within half a unit of the last place.
\<close>

lemma scale2_succ: "scale2 x (k + 1) = 2 * scale2 x k"
proof (cases "0 \<le> k")
  case True
  then show ?thesis by (simp add: scale2_def nat_add_distrib)
next
  case False
  then have "nat (- k) = Suc (nat (- (k + 1)))" by simp
  then show ?thesis using False by (cases "k + 1 = 0") (auto simp: scale2_def)
qed

lemma scale2_pred: "scale2 x (k - 1) = scale2 x k / 2"
  using scale2_succ[of x "k - 1"] by simp

lemma binade_spec:
  assumes "1 / 2 ^ n \<le> x" "x < 2 * 2 ^ n"
  shows "scale2 1 (binade n x) \<le> x \<and> x < scale2 2 (binade n x)"
  using assms
proof (induction n arbitrary: x)
  case 0
  then show ?case by (simp add: scale2_def)
next
  case (Suc n)
  have pow: "(1::real) \<le> 2 ^ n" by (rule one_le_power) simp
  consider "2 \<le> x" | "x < 1" | "1 \<le> x" "x < 2" by linarith
  then show ?case
  proof cases
    case 1
    have "1 / 2 ^ n \<le> x / 2"
    proof -
      have "1 / 2 ^ n \<le> (1::real)" using pow by (simp add: divide_le_eq)
      moreover have "1 \<le> x / 2" using 1 by simp
      ultimately show ?thesis by linarith
    qed
    moreover have "x / 2 < 2 * 2 ^ n" using Suc.prems by simp
    ultimately have "scale2 1 (binade n (x / 2)) \<le> x / 2 \<and> x / 2 < scale2 2 (binade n (x / 2))"
      by (rule Suc.IH)
    with 1 show ?thesis by (simp add: scale2_succ)
  next
    case 2
    have "1 / 2 ^ n \<le> x * 2" using Suc.prems by (simp add: field_simps)
    moreover have "x * 2 < 2 * 2 ^ n" using 2 pow by linarith
    ultimately have "scale2 1 (binade n (x * 2)) \<le> x * 2 \<and> x * 2 < scale2 2 (binade n (x * 2))"
      by (rule Suc.IH)
    with 2 show ?thesis by (simp add: scale2_pred)
  next
    case 3
    then show ?thesis by (simp add: scale2_def)
  qed
qed


lemma binade_below:
  assumes "0 < x" "x < 1 / 2 ^ n"
  shows "binade n x = - int n"
  using assms
proof (induction n arbitrary: x)
  case 0
  then show ?case by simp
next
  case (Suc n)
  have "(1::real) \<le> 2 ^ Suc n" by (rule one_le_power) simp
  then have "1 / 2 ^ Suc n \<le> (1::real)" by (simp add: divide_le_eq)
  with Suc.prems have lt: "x < 1" by linarith
  have "x * 2 < 1 / 2 ^ n" using Suc.prems by (simp add: field_simps)
  with Suc.prems have "binade n (x * 2) = - int n" by (intro Suc.IH) simp_all
  with lt show ?case by simp
qed

lemma binade_above:
  assumes "2 * 2 ^ n \<le> x"
  shows "binade n x = int n"
  using assms
proof (induction n arbitrary: x)
  case 0
  then show ?case by simp
next
  case (Suc n)
  have "(1::real) \<le> 2 ^ Suc n" by (rule one_le_power) simp
  with Suc.prems have ge: "2 \<le> x" by linarith
  have "2 * 2 ^ n \<le> x / 2" using Suc.prems by simp
  then have "binade n (x / 2) = int n" by (rule Suc.IH)
  with ge show ?case by simp
qed

lemma scale2_powi: "scale2 x k = x * 2 powi k"
  by (simp add: scale2_def power_int_def field_simps)

lemma round_half_even_error: "\<bar>of_int (round_half_even q) - q\<bar> \<le> 1 / 2"
  unfolding round_half_even_def by (auto; linarith)


lemma fl64_relative_error:
  assumes "fl64 x = Some r"
  shows "\<bar>r - x\<bar> \<le> \<bar>x\<bar> / 2 ^ 53"
proof (cases "x = 0")
  case True
  with assms show ?thesis by (simp add: fl64_def)
next
  case False
  define a where "a = \<bar>x\<bar>"
  define e where "e = binade 1100 a"
  define q where "q = round_half_even (a * 2 powi (52 - e))"
  have apos: "0 < a" using False by (simp add: a_def)
  from assms False have rng: "- 1022 \<le> e" "e \<le> 1023"
    and r: "r = sgn x * (of_int q * 2 powi (e - 52))"
    by (auto simp: fl64_def Let_def scale2_powi a_def e_def q_def split: if_splits)
  have lo: "1 / 2 ^ 1100 \<le> a"
  proof (rule ccontr)
    assume "\<not> 1 / 2 ^ 1100 \<le> a"
    then have "binade 1100 a = - int 1100" using apos by (intro binade_below) simp_all
    with rng show False by (simp add: e_def)
  qed
  have hi: "a < 2 * 2 ^ 1100"
  proof (rule ccontr)
    assume "\<not> a < 2 * 2 ^ 1100"
    then have "binade 1100 a = int 1100" by (intro binade_above) simp
    with rng show False by (simp add: e_def)
  qed
  from binade_spec[OF lo hi] have ea: "2 powi e \<le> a"
    by (simp add: scale2_powi e_def)
  have upos: "(0::real) < 2 powi (e - 52)" by simp
  have unit: "(2::real) powi (52 - e) * 2 powi (e - 52) = 1"
  proof -
    have "(2::real) powi (52 - e) * 2 powi (e - 52) = 2 powi ((52 - e) + (e - 52))"
      by (subst power_int_add) simp_all
    then show ?thesis by simp
  qed
  have regroup: "(c - a * p) * u = c * u - a" if "p * u = 1" for c p u :: real
  proof -
    have "(c - a * p) * u = c * u - a * (p * u)" by (simp add: algebra_simps)
    then show ?thesis by (simp add: that)
  qed
  have "\<bar>r - x\<bar> = \<bar>of_int q * 2 powi (e - 52) - a\<bar>"
  proof (cases "0 < x")
    case True
    then show ?thesis by (simp add: r a_def)
  next
    case neg: False
    with False have "x < 0" by simp
    then show ?thesis by (simp add: r a_def abs_minus_commute)
  qed
  also have "\<dots> = \<bar>(of_int q - a * 2 powi (52 - e)) * 2 powi (e - 52)\<bar>"
    by (simp only: regroup[OF unit])
  also have "\<dots> = \<bar>of_int q - a * 2 powi (52 - e)\<bar> * 2 powi (e - 52)"
    using upos by (simp add: abs_mult)
  also have "\<dots> \<le> 1 / 2 * 2 powi (e - 52)"
    using round_half_even_error[of "a * 2 powi (52 - e)"] upos
    by (intro mult_right_mono) (simp_all add: q_def)
  also have "\<dots> = 2 powi e / 2 ^ 53"
  proof -
    have "(2::real) powi (e - 52) = 2 powi e / 2 ^ 52"
      by (simp add: power_int_diff)
    then show ?thesis by simp
  qed
  also have "\<dots> \<le> a / 2 ^ 53" using ea by (simp add: divide_right_mono)
  finally show ?thesis by (simp add: a_def)
qed

lemma binade_numeral:
  "binade (numeral k) x =
     (if 2 \<le> x then binade (pred_numeral k) (x / 2) + 1
      else if x < 1 then binade (pred_numeral k) (x * 2) - 1
      else 0)"
  by (simp add: numeral_eq_Suc)

lemmas fl64_eval = fl64_def round_half_even_def scale2_def Let_def binade_numeral

text \<open>The literals of the risk score, as Python reads them.\<close>

lemma fl64_literals:
  "fl64 0.1 = Some (3602879701896397 / 2 ^ 55)"
  "fl64 0.2 = Some (3602879701896397 / 2 ^ 54)"
  "fl64 0.3 = Some (5404319552844595 / 2 ^ 54)"
  "fl64 0.5 = Some (1 / 2)"
  "fl64 0.6 = Some (5404319552844595 / 2 ^ 53)"
  "fl64 0.65 = Some (5854679515581645 / 2 ^ 53)"
  "fl64 0.7 = Some (3152519739159347 / 2 ^ 52)"
  "fl64 0.9 = Some (8106479329266893 / 2 ^ 53)"
  by (simp_all add: fl64_eval)

text \<open>
  Claim C4, as the code has it. For \<open>hue_mean = 35\<close>, \<open>saturation_mean = 0.7\<close> (the
  binary64 number \<open>3152519739159347 / 2^52\<close>) and empty detection and classification
  lists, the formulas give \<open>avian_flu_risk = 0.3\<close> and \<open>total_risk = 0.9\<close> in exact
  arithmetic. The code, in binary64, computes
  \<open>avian_flu_risk = 5404319552844591 / 2^54\<close> (printed 0.29999999999999977) and
  \<open>total_risk = 4053239664633445 / 2^52\<close> (printed 0.8999999999999997), each within
  \<open>10^-15\<close> of those values: \<open>(0.7 - 0.65) / 0.1\<close> rounds to a number below \<open>0.5\<close>, so the
  argument of \<open>min\<close> stays below \<open>1.0\<close>. It uses the threshold 0.65, since no poultry
  object is detected, and returns the high-risk verdict.
\<close>

theorem scenario_B_binary64:
  "fl64 0.7 = Some (3152519739159347 / 2 ^ 52)
   \<and> analyze_feces_b64 feces_config True (Some \<lparr>detection = [], classification = []\<rparr>)
        35 (3152519739159347 / 2 ^ 52) v now hist =
       Some (Some \<lparr>timestamp = now, risk_level = HighRisk,
                probability = 4053239664633445 / 2 ^ 52,
                detected_objects = [], detected_features = [],
                local_h = 35, local_s = 3152519739159347 / 2 ^ 52, local_v = v,
                avian_flu_risk = 5404319552844591 / 2 ^ 54,
                h_alert = True, s_alert = True,
                expert_advice = [LowHueAdvice 35,
                                 HighSaturationAdvice (3152519739159347 / 2 ^ 52),
                                 MediumRiskAdvice]\<rparr>,
             hist @ [\<lparr>timestamp = now, risk_level = HighRisk,
                probability = 4053239664633445 / 2 ^ 52,
                detected_objects = [], detected_features = [],
                local_h = 35, local_s = 3152519739159347 / 2 ^ 52, local_v = v,
                avian_flu_risk = 5404319552844591 / 2 ^ 54,
                h_alert = True, s_alert = True,
                expert_advice = [LowHueAdvice 35,
                                 HighSaturationAdvice (3152519739159347 / 2 ^ 52),
                                 MediumRiskAdvice]\<rparr>])
   \<and> threshold_b64 (risk_objects feces_config []) = fl64 0.65
   \<and> fl64 0.65 = Some (5854679515581645 / 2 ^ 53)
   \<and> \<bar>5404319552844591 / 2 ^ 54 - 0.3\<bar> < (1 / 10 ^ 15 :: real)
   \<and> \<bar>4053239664633445 / 2 ^ 52 - 0.9\<bar> < (1 / 10 ^ 15 :: real)
   \<and> avian_flu 35 0.7 = 0.3
   \<and> total_risk (risk_objects feces_config []) (risk_features feces_config [])
        (avian_flu 35 0.7) 35 0.7 = 0.9"
proof -
  have "analyze_feces_b64 feces_config True (Some \<lparr>detection = [], classification = []\<rparr>)
        35 (3152519739159347 / 2 ^ 52) v now hist =
       Some (Some \<lparr>timestamp = now, risk_level = HighRisk,
                probability = 4053239664633445 / 2 ^ 52,
                detected_objects = [], detected_features = [],
                local_h = 35, local_s = 3152519739159347 / 2 ^ 52, local_v = v,
                avian_flu_risk = 5404319552844591 / 2 ^ 54,
                h_alert = True, s_alert = True,
                expert_advice = [LowHueAdvice 35,
                                 HighSaturationAdvice (3152519739159347 / 2 ^ 52),
                                 MediumRiskAdvice]\<rparr>,
             hist @ [\<lparr>timestamp = now, risk_level = HighRisk,
                probability = 4053239664633445 / 2 ^ 52,
                detected_objects = [], detected_features = [],
                local_h = 35, local_s = 3152519739159347 / 2 ^ 52, local_v = v,
                avian_flu_risk = 5404319552844591 / 2 ^ 54,
                h_alert = True, s_alert = True,
                expert_advice = [LowHueAdvice 35,
                                 HighSaturationAdvice (3152519739159347 / 2 ^ 52),
                                 MediumRiskAdvice]\<rparr>])"
    by (simp add: analyze_feces_b64_def risk_objects_def risk_features_def threshold_b64_def
        generate_advice_b64_def avian_flu_b64_def total_risk_b64_def fl64_eval)
  moreover have "avian_flu 35 0.7 = 0.3
     \<and> total_risk (risk_objects feces_config []) (risk_features feces_config [])
        (avian_flu 35 0.7) 35 0.7 = 0.9"
    by (simp add: risk_objects_def risk_features_def avian_flu_def total_risk_def)
  moreover have "fl64 0.7 = Some (3152519739159347 / 2 ^ 52)"
    "fl64 0.65 = Some (5854679515581645 / 2 ^ 53)"
    by (simp_all add: fl64_eval)
  ultimately show ?thesis
    by (simp add: threshold_b64_def risk_objects_def)
qed

text \<open>
  In binary64 neither value is the one the exact formula gives, nor the binary64
  number that the literal \<open>0.3\<close> or \<open>0.9\<close> denotes.
\<close>

theorem scenario_B_rounding_counterexample:
  "avian_flu_b64 35 (3152519739159347 / 2 ^ 52) = Some (5404319552844591 / 2 ^ 54)
   \<and> fl64 0.3 = Some (5404319552844595 / 2 ^ 54)
   \<and> (5404319552844591 / 2 ^ 54 :: real) \<noteq> 0.3
   \<and> total_risk_b64 [] [] (5404319552844591 / 2 ^ 54) 35 (3152519739159347 / 2 ^ 52)
       = Some (4053239664633445 / 2 ^ 52)
   \<and> fl64 0.9 = Some (8106479329266893 / 2 ^ 53)
   \<and> (4053239664633445 / 2 ^ 52 :: real) \<noteq> 0.9"
  by (simp add: avian_flu_b64_def total_risk_b64_def fl64_eval)

lemma object_term_mono:
  assumes "detected_object.confidence d \<le> c"
  shows "sum_list (map (\<lambda>obj. detected_object.confidence obj * 0.5)
            (risk_objects cfg (xs @ d # ys)))
       \<le> sum_list (map (\<lambda>obj. detected_object.confidence obj * 0.5)
            (risk_objects cfg (xs @ d\<lparr>detected_object.confidence := c\<rparr> # ys)))"
  using assms by (auto simp: risk_objects_def)

lemma feature_term_mono:
  assumes "classified_feature.confidence f \<le> c"
  shows "sum_list (map (\<lambda>feat. classified_feature.confidence feat * 0.2)
            (risk_features cfg (xs @ f # ys)))
       \<le> sum_list (map (\<lambda>feat. classified_feature.confidence feat * 0.2)
            (risk_features cfg (xs @ f\<lparr>classified_feature.confidence := c\<rparr> # ys)))"
  using assms by (auto simp: risk_features_def)

text \<open>
  Claim C7. Raising the confidence of any single detection item, or of any single
  classification item, while every other input is held fixed, never decreases the
  computed \<open>total_risk\<close> (the \<open>probability\<close> of the returned record). An item below its
  filter's bound contributes nothing, an item above it contributes a positive multiple
  of its confidence.
\<close>

theorem total_risk_monotonic:
  "(detected_object.confidence d \<le> c \<longrightarrow>
      (\<exists>a a'. fst (analyze_feces cfg True
                 (Some \<lparr>detection = xs @ d # ys, classification = cs\<rparr>) h s v now hist) = Some a
         \<and> fst (analyze_feces cfg True
                 (Some \<lparr>detection = xs @ d\<lparr>detected_object.confidence := c\<rparr> # ys,
                        classification = cs\<rparr>) h s v now hist) = Some a'
         \<and> probability a \<le> probability a'))
   \<and> (classified_feature.confidence f \<le> c' \<longrightarrow>
      (\<exists>a a'. fst (analyze_feces cfg True
                 (Some \<lparr>detection = ds, classification = us @ f # vs\<rparr>) h s v now hist) = Some a
         \<and> fst (analyze_feces cfg True
                 (Some \<lparr>detection = ds,
                        classification = us @ f\<lparr>classified_feature.confidence := c'\<rparr> # vs\<rparr>)
                 h s v now hist) = Some a'
         \<and> probability a \<le> probability a'))"
  using object_term_mono[of d c cfg xs ys] feature_term_mono[of f c' cfg us vs]
  by (simp add: analyze_feces_def Let_def total_risk_def)

theorem total_risk_monotonic_witness:
  "detected_object.confidence \<lparr>name = ''chicken'', confidence = 0.4\<rparr> \<le> 0.9
   \<and> probability (the (fst (analyze_feces feces_config True
         (Some \<lparr>detection = [\<lparr>name = ''chicken'', confidence = 0.4\<rparr>], classification = []\<rparr>)
         60 0.5 0.5 [] []))) = 0
   \<and> probability (the (fst (analyze_feces feces_config True
         (Some \<lparr>detection = [\<lparr>name = ''chicken'', confidence = 0.9\<rparr>], classification = []\<rparr>)
         60 0.5 0.5 [] []))) = 0.45
   \<and> (\<exists>a a'. fst (analyze_feces feces_config True
                 (Some \<lparr>detection = [] @ \<lparr>name = ''chicken'', confidence = 0.4\<rparr> # [],
                        classification = []\<rparr>) 60 0.5 0.5 [] []) = Some a
         \<and> fst (analyze_feces feces_config True
                 (Some \<lparr>detection =
                          [] @ \<lparr>name = ''chicken'', confidence = 0.4\<rparr>
                                 \<lparr>detected_object.confidence := 0.9\<rparr> # [],
                        classification = []\<rparr>) 60 0.5 0.5 [] []) = Some a'
         \<and> probability a \<le> probability a')
   \<and> classified_feature.confidence \<lparr>label = ''blood'', confidence = 40\<rparr> \<le> 60
   \<and> (\<exists>a a'. fst (analyze_feces feces_config True
                 (Some \<lparr>detection = [],
                        classification = [] @ \<lparr>label = ''blood'', confidence = 40\<rparr> # []\<rparr>)
                 60 0.5 0.5 [] []) = Some a
         \<and> fst (analyze_feces feces_config True
                 (Some \<lparr>detection = [],
                        classification =
                          [] @ \<lparr>label = ''blood'', confidence = 40\<rparr>
                                 \<lparr>classified_feature.confidence := 60\<rparr> # []\<rparr>)
                 60 0.5 0.5 [] []) = Some a'
         \<and> probability a \<le> probability a')"
proof -
  have low: "probability (the (fst (analyze_feces feces_config True
         (Some \<lparr>detection = [\<lparr>name = ''chicken'', confidence = 0.4\<rparr>], classification = []\<rparr>)
         60 0.5 0.5 [] []))) = 0"
    by (simp add: analyze_feces_def Let_def risk_objects_def risk_features_def avian_flu_def
        total_risk_def feces_config_def)
  have high: "probability (the (fst (analyze_feces feces_config True
         (Some \<lparr>detection = [\<lparr>name = ''chicken'', confidence = 0.9\<rparr>], classification = []\<rparr>)
         60 0.5 0.5 [] []))) = 0.45"
    by (simp add: analyze_feces_def Let_def risk_objects_def risk_features_def avian_flu_def
        total_risk_def feces_config_def)
  show ?thesis
    using total_risk_monotonic
            [of "\<lparr>name = ''chicken'', confidence = 0.4\<rparr>" "0.9" feces_config "[]" "[]" "[]"
                60 "0.5" "0.5" "[]" "[]" "\<lparr>label = ''blood'', confidence = 40\<rparr>" 60 "[]" "[]" "[]"]
          low high
    by simp
qed

section \<open>Claims about the advisory client\<close>

lemma retry_loop_exhausted:
  "\<not> retries < max_retries \<Longrightarrow> retry_loop remote rq max_retries retries s = (Inr None, s)"
  by (simp add: retry_loop.simps)

lemma retry_loop_failed:
  "retries < max_retries \<Longrightarrow> remote (posts s) rq = RequestException \<Longrightarrow>
   retry_loop remote rq max_retries retries s =
     retry_loop remote rq max_retries (Suc retries)
       (s\<lparr>posts := Suc (posts s), sleeps := sleeps s @ [2 ^ Suc retries]\<rparr>)"
  by (subst retry_loop.simps) simp

lemma retry_loop_answered:
  "retries < max_retries \<Longrightarrow> remote (posts s) rq \<noteq> RequestException \<Longrightarrow>
   retry_loop remote rq max_retries retries s =
     (case remote (posts s) rq of
        Content c \<Rightarrow> Inr (Some c)
      | KeyError \<Rightarrow> Inr None
      | Unhandled \<Rightarrow> Inl OtherError
      | RequestException \<Rightarrow> Inr None,
      s\<lparr>posts := Suc (posts s)\<rparr>)"
  by (subst retry_loop.simps) (simp split: reply.splits)

lemma retry_loop_cache:
  "analysis_cache (snd (retry_loop remote rq max_retries retries s)) = analysis_cache s"
proof (induction remote rq max_retries retries s rule: retry_loop.induct)
  case (1 remote rq max_retries retries s)
  show ?case
  proof (cases "retries < max_retries")
    case False
    then show ?thesis by (simp add: retry_loop_exhausted)
  next
    case True
    show ?thesis
    proof (cases "remote (posts s) rq = RequestException")
      case False
      with True show ?thesis by (simp add: retry_loop_answered)
    next
      case re: True
      have "analysis_cache (snd (retry_loop remote rq max_retries (retries + 1)
               (s\<lparr>posts := posts s + 1, sleeps := sleeps s @ [2 ^ (retries + 1)]\<rparr>)))
            = analysis_cache (s\<lparr>posts := posts s + 1, sleeps := sleeps s @ [2 ^ (retries + 1)]\<rparr>)"
        using "1.IH"[OF True re] .
      with True re show ?thesis by (simp add: retry_loop_failed)
    qed
  qed
qed

lemma retry_cache:
  "ai_analysis_with_retry remote q p e n s = (res, s') \<Longrightarrow> analysis_cache s' = analysis_cache s"
  using retry_loop_cache[of remote "(q, p, e)" n 0 s] by (simp add: ai_analysis_with_retry_def)

lemma ai_analysis_hit:
  "analysis_cache s (q, p, e) = Some r \<Longrightarrow> ai_analysis remote q p e s = (Inr (Some r), s)"
  by (simp add: ai_analysis_def)

lemma ai_analysis_miss:
  assumes "analysis_cache s (q, p, e) = None"
    and "ai_analysis_with_retry remote q p e 3 s = (res, s')"
  shows "ai_analysis remote q p e s =
     (res, case res of
             Inr (Some r) \<Rightarrow>
               if r \<noteq> [] then s'\<lparr>analysis_cache := (analysis_cache s')((q, p, e) \<mapsto> r)\<rparr> else s'
           | _ \<Rightarrow> s')"
  using assms by (simp add: ai_analysis_def split: sum.splits option.splits)


text \<open>
  Claim C8, as the code has it. For every (query, parameter snapshot) pair: when the
  first request returns an advisory text that is not empty, the same request issued
  again is served from the cache and sends nothing to the remote service, so the two
  requests together make exactly one remote call when the first attempt of the first
  request succeeds. A fetch that fails (\<^verbatim>\<open>None\<close> or an exception), and also one that
  returns the empty text, is not cached and leaves the cache as it was; every entry the
  cache gains is a successful result that is not empty.
\<close>

theorem advisory_cache:
  "(case ai_analysis remote q p e s of (res1, s1) \<Rightarrow>
      (\<forall>r. res1 = Inr (Some r) \<and> r \<noteq> [] \<longrightarrow>
            ai_analysis remote q p e s1 = (Inr (Some r), s1))
    \<and> (\<forall>r. analysis_cache s (q, p, e) = None \<and> remote (posts s) (q, p, e) = Content r
             \<and> r \<noteq> [] \<longrightarrow>
            res1 = Inr (Some r) \<and> posts s1 = posts s + 1
            \<and> posts (snd (ai_analysis remote q p e s1)) = posts s + 1)
    \<and> (res1 = Inr None \<or> res1 = Inr (Some []) \<or> isl res1 \<longrightarrow>
          analysis_cache s1 = analysis_cache s)
    \<and> (\<forall>k v. analysis_cache s1 k = Some v \<longrightarrow>
            analysis_cache s k = Some v \<or> (k = (q, p, e) \<and> res1 = Inr (Some v) \<and> v \<noteq> [])))"
proof (cases "analysis_cache s (q, p, e)")
  case (Some c)
  then show ?thesis by (auto simp: ai_analysis_hit)
next
  case None
  obtain res s' where run: "ai_analysis_with_retry remote q p e 3 s = (res, s')"
    by (cases "ai_analysis_with_retry remote q p e 3 s")
  note c = retry_cache[OF run]
  note m = ai_analysis_miss[OF None run]
  have first: "res = Inr (Some r) \<and> posts s' = posts s + 1"
    if "remote (posts s) (q, p, e) = Content r" for r
    using run that by (auto simp: ai_analysis_with_retry_def retry_loop_answered)
  show ?thesis
    using c None first
    by (auto simp: m ai_analysis_hit split: sum.splits option.splits if_splits)
qed

theorem advisory_cache_witness:
  "ai_analysis remote_flaky ''q'' default_params default_env_factors fresh_client =
     (Inr (Some ''ok''),
      \<lparr>analysis_cache = [(''q'', default_params, default_env_factors) \<mapsto> ''ok''],
       posts = 2, sleeps = [2]\<rparr>)
   \<and> ai_analysis remote_flaky ''q'' default_params default_env_factors
        \<lparr>analysis_cache = [(''q'', default_params, default_env_factors) \<mapsto> ''ok''],
         posts = 2, sleeps = [2]\<rparr> =
     (Inr (Some ''ok''),
      \<lparr>analysis_cache = [(''q'', default_params, default_env_factors) \<mapsto> ''ok''],
       posts = 2, sleeps = [2]\<rparr>)"
proof -
  have first: "ai_analysis remote_flaky ''q'' default_params default_env_factors fresh_client =
     (Inr (Some ''ok''),
      \<lparr>analysis_cache = [(''q'', default_params, default_env_factors) \<mapsto> ''ok''],
       posts = 2, sleeps = [2]\<rparr>)"
    by (simp add: ai_analysis_def ai_analysis_with_retry_def fresh_client_def remote_flaky_def
        retry_loop.simps)
  show ?thesis
    using advisory_cache[of remote_flaky "''q''" default_params default_env_factors fresh_client]
    by (simp add: first)
qed

text \<open>
  A remote service that answers every request with status 200 and the empty content:
  the first request returns the empty text and caches nothing, and the same request
  issued again goes to the remote service a second time.
\<close>

theorem empty_advisory_counterexample:
  "ai_analysis remote_empty ''q'' default_params default_env_factors fresh_client =
     (Inr (Some []), \<lparr>analysis_cache = Map.empty, posts = 1, sleeps = []\<rparr>)
   \<and> ai_analysis remote_empty ''q'' default_params default_env_factors
        \<lparr>analysis_cache = Map.empty, posts = 1, sleeps = []\<rparr> =
     (Inr (Some []), \<lparr>analysis_cache = Map.empty, posts = 2, sleeps = []\<rparr>)"
  by (simp add: ai_analysis_def ai_analysis_with_retry_def fresh_client_def remote_empty_def
      retry_loop.simps)




end
